theory Spec2Isabelle
  imports Main "HOL-Library.AList"
begin

section \<open>Python values and exceptions\<close>

text \<open>
  Every exception the modelled code can raise is a value. The message is kept where the
  source gives one, so that two \<open>ValueError\<close>s raised at different places stay apart.
  \<open>LibraryError\<close> stands for whatever a collaborator outside the repository (web3,
  eth_account, the file system) raises.
\<close>

datatype error =
    IndexError
  | KeyError string
  | AttributeError string
  | TypeError string
  | ConnectionError string
  | ValueError string
  | LibraryError string

text \<open>
  \<open>xs[i]\<close> in Python: an index from 0 to len-1 reads from the front, one from -len to -1
  reads from the end, any other raises \<open>IndexError\<close> (here \<open>None\<close>).
\<close>

definition py_index :: "'a list \<Rightarrow> int \<Rightarrow> 'a option" where
  "py_index xs i =
     (if 0 \<le> i \<and> i < int (length xs) then Some (xs ! nat i)
      else if i < 0 \<and> - int (length xs) \<le> i then Some (xs ! nat (int (length xs) + i))
      else None)"

text \<open>
  An account object of \<open>eth_account\<close> (a \<open>LocalAccount\<close>), known by its address and by
  the hex string of its key.
\<close>

record account =
  acct_address :: string
  acct_key_hex :: string

text \<open>A value handed to or returned by a function, with Python's truth value of it, and a
  keyword dictionary.\<close>

datatype pyval = VNone | VInt int | VStr string | VBool bool | VAccount account

fun truthy :: "pyval \<Rightarrow> bool" where
  "truthy VNone = False"
| "truthy (VInt n) = (n \<noteq> 0)"
| "truthy (VStr s) = (s \<noteq> [])"
| "truthy (VBool b) = b"
| "truthy (VAccount a) = True"

type_synonym pydict = "(string \<times> pyval) list"

text \<open>\<open>{**base, **kwargs}\<close>: a key already present keeps its place and takes the new value,
  a new key is appended.\<close>

definition dict_merge :: "pydict \<Rightarrow> pydict \<Rightarrow> pydict" where
  "dict_merge base kwargs = fold (\<lambda>kv d. AList.update (fst kv) (snd kv) d) kwargs base"

text \<open>Sequencing of calls that may raise: the first exception ends the sequence.\<close>

definition bind_err :: "error + 'a \<Rightarrow> ('a \<Rightarrow> error + 'b) \<Rightarrow> error + 'b" where
  "bind_err m f = (case m of Inl e \<Rightarrow> Inl e | Inr x \<Rightarrow> f x)"

section \<open>provider.py: the connection manager\<close>

datatype Chain = ETHEREUM | POLYGON | ARBITRUM | OPTIMISM | BSC | AVALANCHE | BASE | LOCAL

datatype ProviderType = HTTP | WEBSOCKET

text \<open>
  The object \<open>Web3(provider)\<close> built at line 100: which endpoint it talks to, over which
  transport, with which timeout, whether the proof-of-authority middleware has been
  injected into it, and which object it is. Two objects built by two evaluations of line
  100 are different objects even when they talk to the same endpoint, so a handle
  carries the number of the evaluation that built it.
\<close>

record web3_handle =
  endpoint :: string
  transport :: ProviderType
  handle_timeout :: int
  poa_middleware :: bool
  handle_id :: nat

text \<open>
  The fields of a \<open>Provider\<close>. \<open>objects_built\<close> is not a field of the source: it counts
  the \<open>Web3\<close> objects the manager has built so far, and numbers the next one.
\<close>

record provider =
  rpc_urls :: "string list"
  provider_type :: ProviderType
  timeout :: int
  retry_count :: int
  chain :: "Chain option"
  current_provider_index :: int
  w3 :: "web3_handle option"
  objects_built :: nat

text \<open>
  What the outside world answers during one call of \<open>connect\<close>. Within one call every
  index of \<open>rpc_urls\<close> is tried at most once, so the answers are given per index:
  \<open>opens i\<close>: the transport and \<open>Web3\<close> constructors (lines 89-100) return;
  \<open>injects i\<close>: \<open>middleware_onion.inject\<close> (line 104) returns;
  \<open>isconnected i\<close>: the liveness test (line 107) returns True (False stands for a
  False result and for an exception raised by the test: both reach the handler);
  \<open>probe\<close>: the liveness test that the accessor \<open>w3\<close> makes on the handle it holds,
  outside any \<open>try\<close>: its result, or the exception it raises.
\<close>

record net =
  opens :: "int \<Rightarrow> bool"
  injects :: "int \<Rightarrow> bool"
  isconnected :: "int \<Rightarrow> bool"
  probe :: "error + bool"

text \<open>Line 103: \<open>self.chain in [Chain.POLYGON, Chain.BSC]\<close>.\<close>

definition needs_poa :: "Chain option \<Rightarrow> bool" where
  "needs_poa ch = (ch = Some POLYGON \<or> ch = Some BSC)"

definition new_handle :: "provider \<Rightarrow> string \<Rightarrow> web3_handle" where
  "new_handle p rpc_url =
     \<lparr>endpoint = rpc_url, transport = provider_type p, handle_timeout = timeout p,
      poa_middleware = False, handle_id = objects_built p\<rparr>"

text \<open>
  \<open>connect\<close> and \<open>failover\<close> call each other. The result is the exception that leaves
  the call (\<open>None\<close>: the call returned) and the object's state afterwards: the fields
  assigned before an exception stay assigned.
\<close>

function connect :: "net \<Rightarrow> provider \<Rightarrow> error option \<times> provider"
  and failover :: "net \<Rightarrow> provider \<Rightarrow> error option \<times> provider" where
  "connect env p =
     (case py_index (rpc_urls p) (current_provider_index p) of
        None \<Rightarrow> (Some IndexError, p)
      | Some rpc_url \<Rightarrow>
          if \<not> opens env (current_provider_index p) then failover env p
          else if needs_poa (chain p) \<and> \<not> injects env (current_provider_index p)
          then failover env (p\<lparr>w3 := Some (new_handle p rpc_url),
                                 objects_built := objects_built p + 1\<rparr>)
          else if \<not> isconnected env (current_provider_index p)
          then failover env
                 (p\<lparr>w3 := Some ((new_handle p rpc_url)\<lparr>poa_middleware := needs_poa (chain p)\<rparr>),
                    objects_built := objects_built p + 1\<rparr>)
          else (None,
                p\<lparr>w3 := Some ((new_handle p rpc_url)\<lparr>poa_middleware := needs_poa (chain p)\<rparr>),
                   objects_built := objects_built p + 1\<rparr>))"
| "failover env p =
     (if current_provider_index p < int (length (rpc_urls p)) - 1
      then connect env (p\<lparr>current_provider_index := current_provider_index p + 1\<rparr>)
      else (Some (ConnectionError ''All RPC endpoints failed''), p))"
  by pat_completeness auto
termination
  by (relation "measure (\<lambda>x. case x of
        Inl (env, p) \<Rightarrow> 2 * nat (int (length (rpc_urls p)) - current_provider_index p) + 1
      | Inr (env, p) \<Rightarrow> 2 * nat (int (length (rpc_urls p)) - current_provider_index p))")
     auto

datatype rpc_arg = Url string | Urls "string list"

text \<open>\<open>Provider.__init__\<close>: a single string becomes a one-element list; then \<open>connect\<close>.\<close>

definition Provider_init ::
  "net \<Rightarrow> rpc_arg \<Rightarrow> ProviderType \<Rightarrow> int \<Rightarrow> int \<Rightarrow> Chain option \<Rightarrow> error option \<times> provider" where
  "Provider_init env rpc_url ptype tmo retries ch =
     connect env
       \<lparr>rpc_urls = (case rpc_url of Url s \<Rightarrow> [s] | Urls l \<Rightarrow> l),
        provider_type = ptype, timeout = tmo, retry_count = retries, chain = ch,
        current_provider_index = 0, w3 = None, objects_built = 0\<rparr>"

text \<open>
  The property \<open>w3\<close>: reconnect when no handle is held or the held one is not live. The
  liveness test is not made when no handle is held; an exception it raises leaves the
  accessor.
\<close>

definition reconnect :: "net \<Rightarrow> provider \<Rightarrow> (error + web3_handle option) \<times> provider" where
  "reconnect env p =
     (case connect env p of
        (Some e, p') \<Rightarrow> (Inl e, p')
      | (None, p') \<Rightarrow> (Inr (w3 p'), p'))"

definition w3_accessor :: "net \<Rightarrow> provider \<Rightarrow> (error + web3_handle option) \<times> provider" where
  "w3_accessor env p =
     (case w3 p of
        None \<Rightarrow> reconnect env p
      | Some h \<Rightarrow>
          (case probe env of
             Inl e \<Rightarrow> (Inl e, p)
           | Inr live \<Rightarrow> if \<not> live then reconnect env p else (Inr (w3 p), p)))"

text \<open>
  \<open>DEFAULT_RPCS\<close>, \<open>Provider.auto\<close> and \<open>get_provider\<close> (lines 55-64, 176-191, 210-216).
  \<open>getenv\<close> is the environment; \<open>if rpc_url:\<close> is false for \<open>None\<close> and for the empty
  string. The constructor is called with its defaults: HTTP, timeout 30, 3 retries.
\<close>

fun DEFAULT_RPCS :: "Chain \<Rightarrow> string" where
  "DEFAULT_RPCS ETHEREUM = ''https://ethereum-rpc.publicnode.com''"
| "DEFAULT_RPCS POLYGON = ''https://polygon-bor-rpc.publicnode.com''"
| "DEFAULT_RPCS ARBITRUM = ''https://arbitrum-one-rpc.publicnode.com''"
| "DEFAULT_RPCS OPTIMISM = ''https://optimism-rpc.publicnode.com''"
| "DEFAULT_RPCS BSC = ''https://bsc-rpc.publicnode.com''"
| "DEFAULT_RPCS AVALANCHE = ''https://avalanche-c-chain-rpc.publicnode.com''"
| "DEFAULT_RPCS BASE = ''https://base-rpc.publicnode.com''"
| "DEFAULT_RPCS LOCAL = ''http://127.0.0.1:8545''"

definition is_set :: "string option \<Rightarrow> bool" where
  "is_set v = (v \<noteq> None \<and> v \<noteq> Some [])"

definition Provider_auto :: "net \<Rightarrow> (string \<Rightarrow> string option) \<Rightarrow> Chain \<Rightarrow> error option \<times> provider" where
  "Provider_auto env getenv ch =
     (case find (\<lambda>var. is_set (getenv var)) [''RPC_URL'', ''WEB3_PROVIDER_URI'', ''ETH_RPC_URL''] of
        Some var \<Rightarrow> Provider_init env (Url (the (getenv var))) HTTP 30 3 (Some ch)
      | None \<Rightarrow> Provider_init env (Url (DEFAULT_RPCS ch)) HTTP 30 3 (Some ch))"

definition get_provider ::
  "net \<Rightarrow> (string \<Rightarrow> string option) \<Rightarrow> string option \<Rightarrow> Chain \<Rightarrow> error option \<times> provider" where
  "get_provider env getenv rpc_url ch =
     (if is_set rpc_url then Provider_init env (Url (the rpc_url)) HTTP 30 3 (Some ch)
      else Provider_auto env getenv ch)"

subsection \<open>Vocabulary for the properties of the connection manager\<close>

text \<open>The attempt at index \<open>i\<close> succeeds: nothing in lines 89-108 raises.\<close>

definition attempt_ok :: "net \<Rightarrow> Chain option \<Rightarrow> int \<Rightarrow> bool" where
  "attempt_ok env ch i = (opens env i \<and> (needs_poa ch \<longrightarrow> injects env i) \<and> isconnected env i)"

text \<open>The number of indices from \<open>a\<close> up to, and without, \<open>b\<close> at which the transport opens:
  the number of objects the attempts at these indices build.\<close>

definition opened_before :: "net \<Rightarrow> int \<Rightarrow> int \<Rightarrow> nat" where
  "opened_before env a b = length (filter (opens env) [a..b - 1])"

text \<open>
  The handle that the attempt at index \<open>j\<close> leaves in \<open>_w3\<close> once its transport has
  opened, in a call whose first attempt is at index \<open>a\<close> on the manager \<open>p\<close>; and the same
  for a call of \<open>connect\<close> on \<open>p\<close>, whose first attempt is at the active index.
\<close>

definition installed_from :: "net \<Rightarrow> provider \<Rightarrow> int \<Rightarrow> int \<Rightarrow> web3_handle" where
  "installed_from env p a j =
     \<lparr>endpoint = rpc_urls p ! nat j, transport = provider_type p, handle_timeout = timeout p,
      poa_middleware = (needs_poa (chain p) \<and> injects env j),
      handle_id = objects_built p + opened_before env a j\<rparr>"

definition installed :: "net \<Rightarrow> provider \<Rightarrow> int \<Rightarrow> web3_handle" where
  "installed env p j = installed_from env p (current_provider_index p) j"

text \<open>The state that the attempt at the active index leaves behind: the new handle when the
  transport opened, the state as it was when it did not.\<close>

definition after_attempt :: "net \<Rightarrow> provider \<Rightarrow> provider" where
  "after_attempt env p =
     (if opens env (current_provider_index p)
      then p\<lparr>w3 := Some (installed env p (current_provider_index p)),
             objects_built := objects_built p + 1\<rparr>
      else p)"

text \<open>
  One operation on a manager, under any answers of the network; the managers that exist:
  those \<open>__init__\<close> returned, and what operations make of them.
\<close>

inductive step :: "provider \<Rightarrow> provider \<Rightarrow> bool" where
  step_connect: "connect env p = (r, p') \<Longrightarrow> step p p'"
| step_failover: "failover env p = (r, p') \<Longrightarrow> step p p'"
| step_w3: "w3_accessor env p = (v, p') \<Longrightarrow> step p p'"

inductive reachable :: "provider \<Rightarrow> bool" where
  reach_init: "Provider_init env rpc_url ptype tmo retries ch = (None, p) \<Longrightarrow> reachable p"
| reach_step: "reachable p \<Longrightarrow> step p p' \<Longrightarrow> reachable p'"

text \<open>Networks for the examples: every endpoint down; every transport opens but none is live;
  only the endpoint at index 1 is live; every endpoint live.\<close>

definition net_down :: net where
  "net_down = \<lparr>opens = (\<lambda>i. False), injects = (\<lambda>i. False), isconnected = (\<lambda>i. False),
                probe = Inr False\<rparr>"

definition net_dead :: net where
  "net_dead = \<lparr>opens = (\<lambda>i. True), injects = (\<lambda>i. True), isconnected = (\<lambda>i. False),
                probe = Inr False\<rparr>"

definition net_second :: net where
  "net_second = \<lparr>opens = (\<lambda>i. True), injects = (\<lambda>i. True), isconnected = (\<lambda>i. i = 1),
                  probe = Inr True\<rparr>"

definition net_up :: net where
  "net_up = \<lparr>opens = (\<lambda>i. True), injects = (\<lambda>i. True), isconnected = (\<lambda>i. True),
              probe = Inr True\<rparr>"

text \<open>A manager over the endpoints of the scenario of the specification, and the handles
  that attempts at its two endpoints build.\<close>

definition prov_two :: provider where
  "prov_two = \<lparr>rpc_urls = [''bad://x'', ''good://y''], provider_type = HTTP, timeout = 30,
     retry_count = 3, chain = None, current_provider_index = 0, w3 = None, objects_built = 0\<rparr>"

definition handle_x :: "nat \<Rightarrow> web3_handle" where
  "handle_x k = \<lparr>endpoint = ''bad://x'', transport = HTTP, handle_timeout = 30,
                 poa_middleware = False, handle_id = k\<rparr>"

definition handle_y :: "nat \<Rightarrow> web3_handle" where
  "handle_y k = \<lparr>endpoint = ''good://y'', transport = HTTP, handle_timeout = 30,
                 poa_middleware = False, handle_id = k\<rparr>"

text \<open>A manager with one endpoint, connected to it.\<close>

definition prov_one :: provider where
  "prov_one = \<lparr>rpc_urls = [''bad://x''], provider_type = HTTP, timeout = 30,
     retry_count = 3, chain = None, current_provider_index = 0, w3 = Some (handle_x 0),
     objects_built = 1\<rparr>"

section \<open>The collaborators outside the repository\<close>

text \<open>
  \<open>eth_account\<close>: a signed transaction is known by its raw bytes and its hash. Every
  function of the library is a parameter of the model: \<open>Account.from_key\<close>,
  \<open>Account.create\<close> (a key from the system's randomness), \<open>account.sign_transaction\<close>
  and \<open>Account.encrypt\<close>.
\<close>

record signed_tx =
  rawTransaction :: string
  signed_hash :: string

record eth_account =
  Account_from_key :: "string \<Rightarrow> error + account"
  Account_create :: account
  Account_sign_transaction :: "account \<Rightarrow> pydict \<Rightarrow> error + signed_tx"
  Account_encrypt :: "string \<Rightarrow> string \<Rightarrow> error + string"

text \<open>
  The node behind \<open>web3.eth\<close> and the file system: the transaction count of an address,
  the gas price, the submission of raw bytes (the answer is the transaction hash),
  \<open>HexBytes.hex\<close>, and whether \<open>open(path, 'w')\<close> succeeds.
\<close>

record eth =
  get_transaction_count :: "string \<Rightarrow> error + int"
  gas_price :: "error + int"
  send_raw_transaction :: "string \<Rightarrow> error + string"
  hex :: "string \<Rightarrow> string"
  can_write :: "string \<Rightarrow> bool"

section \<open>utils/validators.py and wallet.py: the signer\<close>

text \<open>
  \<open>validate_key\<close>: the argument is a string here, so the \<open>isinstance\<close> test of line 5
  passes; what is left is the test that every character is a hex digit.
\<close>

definition hex_digits :: string where
  "hex_digits = ''0123456789abcdefABCDEF''"

definition validate_key :: "string \<Rightarrow> error + unit" where
  "validate_key key =
     (if \<not> list_all (\<lambda>c. c \<in> set hex_digits) key
      then Inl (ValueError ''Key must be a valid hexadecimal string.'')
      else Inr ())"

text \<open>
  A \<open>Wallet\<close>. The attribute \<open>private_key\<close> is assigned only on the branch that creates a
  fresh account (the assignment on the other branch is commented out at line 16), so it
  is optional: \<open>None\<close> is an object without that attribute.
\<close>

record wallet =
  account :: account
  private_key :: "string option"
  w_address :: string

text \<open>\<open>Wallet.__init__\<close>: \<open>if private_key:\<close> is false for \<open>None\<close> and for the empty string.\<close>

definition fresh_wallet :: "eth_account \<Rightarrow> wallet" where
  "fresh_wallet lib =
     \<lparr>account = Account_create lib,
      private_key = Some (acct_key_hex (Account_create lib)),
      w_address = acct_address (Account_create lib)\<rparr>"

definition Wallet_init :: "eth_account \<Rightarrow> string option \<Rightarrow> error + wallet" where
  "Wallet_init lib key_arg =
     (case key_arg of
        None \<Rightarrow> Inr (fresh_wallet lib)
      | Some key \<Rightarrow>
          if key = [] then Inr (fresh_wallet lib)
          else bind_err (validate_key key) (\<lambda>_.
               bind_err (Account_from_key lib key) (\<lambda>a.
               Inr \<lparr>account = a, private_key = None, w_address = acct_address a\<rparr>)))"

definition sign_transaction :: "eth_account \<Rightarrow> wallet \<Rightarrow> pydict \<Rightarrow> error + signed_tx" where
  "sign_transaction lib w transaction = Account_sign_transaction lib (account w) transaction"

text \<open>
  \<open>export_key\<close>: read \<open>self.private_key\<close>, encrypt it, write the result to \<open>path\<close>. The
  files are a map from path to content; the result is the returned path, or the
  exception, and the files afterwards.
\<close>

definition export_key ::
  "eth_account \<Rightarrow> eth \<Rightarrow> (string \<rightharpoonup> string) \<Rightarrow> wallet \<Rightarrow> string \<Rightarrow> string
     \<Rightarrow> (error + string) \<times> (string \<rightharpoonup> string)" where
  "export_key lib sys files w password path =
     (case private_key w of
        None \<Rightarrow> (Inl (AttributeError ''private_key''), files)
      | Some k \<Rightarrow>
          (case Account_encrypt lib k password of
             Inl e \<Rightarrow> (Inl e, files)
           | Inr encrypted \<Rightarrow>
               if can_write sys path then (Inr path, files(path \<mapsto> encrypted))
               else (Inl (LibraryError ''open''), files)))"

text \<open>What the specification calls a well-formed hex secret of the expected length: 32
  bytes, that is 64 hex digits.\<close>

definition spec_well_formed_secret :: "string \<Rightarrow> bool" where
  "spec_well_formed_secret key = (length key = 64 \<and> list_all (\<lambda>c. c \<in> set hex_digits) key)"

text \<open>
  A stand-in for the library in the examples: \<open>from_key\<close> takes 64 hex digits, with or
  without the prefix \<open>0x\<close>, and raises \<open>ValueError\<close> for any other string; signing asks
  for a nonce; the fresh account is a fixed one.
\<close>

definition strip_0x :: "string \<Rightarrow> string" where
  "strip_0x k = (if take 2 k = ''0x'' \<or> take 2 k = ''0X'' then drop 2 k else k)"

definition key_a :: string where
  "key_a = replicate 64 CHR ''a''"

definition lib_demo :: eth_account where
  "lib_demo =
     \<lparr>Account_from_key = (\<lambda>k. if spec_well_formed_secret (strip_0x k)
                                then Inr \<lparr>acct_address = ''0xA'', acct_key_hex = strip_0x k\<rparr>
                                else Inl (ValueError ''The private key must be exactly 32 bytes long'')),
      Account_create = \<lparr>acct_address = ''0xF'', acct_key_hex = replicate 64 CHR ''f''\<rparr>,
      Account_sign_transaction = (\<lambda>a tx. case map_of tx ''nonce'' of
           None \<Rightarrow> Inl (TypeError ''Transaction must include these fields: nonce'')
         | Some n \<Rightarrow> Inr \<lparr>rawTransaction = ''raw'', signed_hash = ''h''\<rparr>),
      Account_encrypt = (\<lambda>k pw. Inr (''enc:'' @ pw))\<rparr>"

definition node_demo :: eth where
  "node_demo =
     \<lparr>get_transaction_count = (\<lambda>a. Inr 7), gas_price = Inr 1,
      send_raw_transaction = (\<lambda>raw. Inr ''h''), hex = (\<lambda>h. ''0x'' @ h),
      can_write = (\<lambda>path. True)\<rparr>"

section \<open>txmanager.py: the transaction pipeline\<close>

text \<open>
  The object a \<open>TransactionManager\<close> holds as \<open>provider\<close>. The pipeline reads
  \<open>self.provider.web3\<close>. An instance of the class \<open>Provider\<close> of provider.py has the
  property \<open>w3\<close> and no attribute \<open>web3\<close>, so the read raises \<open>AttributeError\<close> on it;
  any other object that has the attribute (the example in the class's docstring reads
  \<open>provider.web3\<close> too) answers through the node.
\<close>

datatype provider_ref = ProviderInstance provider | HasWeb3

definition provider_web3 :: "provider_ref \<Rightarrow> error + unit" where
  "provider_web3 pr =
     (case pr of ProviderInstance p \<Rightarrow> Inl (AttributeError ''web3'') | HasWeb3 \<Rightarrow> Inr ())"

record transaction_manager =
  tm_wallet :: wallet
  tm_provider :: provider_ref
  auto_nonce :: bool
  confirm_blocks :: int
  nonce_cache :: "int option"
  pending_txs :: "string \<rightharpoonup> pydict"

definition TransactionManager_init ::
  "wallet \<Rightarrow> provider_ref \<Rightarrow> bool \<Rightarrow> int \<Rightarrow> transaction_manager" where
  "TransactionManager_init w pr auto confirm =
     \<lparr>tm_wallet = w, tm_provider = pr, auto_nonce = auto, confirm_blocks = confirm,
      nonce_cache = None, pending_txs = Map.empty\<rparr>"

text \<open>\<open>get_nonce\<close>; \<open>self.nonce_cache or 0\<close> is 0 for \<open>None\<close> and for 0.\<close>

definition get_nonce :: "eth \<Rightarrow> transaction_manager \<Rightarrow> bool \<Rightarrow> error + int" where
  "get_nonce node tm use_pending =
     (if auto_nonce tm
      then (if use_pending \<and> nonce_cache tm \<noteq> None then Inr (the (nonce_cache tm))
            else bind_err (provider_web3 (tm_provider tm)) (\<lambda>_.
                 get_transaction_count node (w_address (tm_wallet tm))))
      else Inr (case nonce_cache tm of None \<Rightarrow> 0 | Some n \<Rightarrow> n))"

text \<open>
  \<open>send_transaction\<close>: sign, submit, return the hash as a hex string. The result comes
  with the state of the pipeline after the call.
\<close>

definition send_transaction ::
  "eth_account \<Rightarrow> eth \<Rightarrow> transaction_manager \<Rightarrow> pydict
     \<Rightarrow> (error + string) \<times> transaction_manager" where
  "send_transaction lib node tm transaction =
     (bind_err (sign_transaction lib (tm_wallet tm) transaction) (\<lambda>signed.
      bind_err (provider_web3 (tm_provider tm)) (\<lambda>_.
      bind_err (send_raw_transaction node (rawTransaction signed)) (\<lambda>tx_hash.
      Inr (hex node tx_hash)))),
      tm)"

text \<open>The examples: a request with no nonce, one with a nonce, and a pipeline in the default
  mode over a provider object that has the attribute \<open>web3\<close>.\<close>

definition tx_no_nonce :: pydict where
  "tx_no_nonce = [(''to'', VStr ''0xB''), (''value'', VInt 1), (''gas'', VInt 21000),
                  (''gasPrice'', VInt 5)]"

definition tx_with_nonce :: pydict where
  "tx_with_nonce = tx_no_nonce @ [(''nonce'', VInt 7)]"

definition tm_demo :: transaction_manager where
  "tm_demo = TransactionManager_init (fresh_wallet lib_demo) HasWeb3 True 1"

section \<open>contract.py: the schema dispatcher\<close>

text \<open>
  One entry of the interface schema: the keys \<open>generate_methods\<close> reads,
  \<open>item.get("type")\<close>, \<open>item["name"]\<close> and \<open>item.get("stateMutability", "")\<close>, each of
  which may be missing from the dictionary, and the types of the declared inputs, which
  only the web3 contract object reads.
\<close>

record abi_item =
  item_type :: "string option"
  item_name :: "string option"
  stateMutability :: "string option"
  item_inputs :: "string list"

text \<open>
  The web3 contract object \<open>self._contract\<close>: the result of
  \<open>getattr(functions, name)(*args).call(**kwargs)\<close>, whether
  \<open>getattr(functions, name)(*args)\<close> returns, and \<open>build_transaction\<close> on it.
\<close>

record web3_contract =
  function_call :: "string \<Rightarrow> pyval list \<Rightarrow> pydict \<Rightarrow> error + pyval"
  function_bind :: "string \<Rightarrow> pyval list \<Rightarrow> error + unit"
  build_transaction :: "string \<Rightarrow> pyval list \<Rightarrow> pydict \<Rightarrow> error + pydict"

text \<open>
  What \<open>__init__\<close> calls outside the class: \<open>Web3.to_checksum_address\<close>, the factory
  \<open>w3.eth.contract(address=..., abi=...)\<close>, which builds the contract object from the whole
  schema and may refuse it, the two loaders of \<open>ABILoader\<close>, which read files, and the
  environment variables.
\<close>

record web3_lib =
  to_checksum_address :: "string \<Rightarrow> error + string"
  contract_factory :: "string \<Rightarrow> abi_item list \<Rightarrow> error + web3_contract"
  abi_from_file :: "string \<Rightarrow> error + abi_item list"
  abi_from_name :: "string \<Rightarrow> error + abi_item list"
  getenv :: "string \<Rightarrow> string option"

text \<open>
  What an attribute name of a \<open>Contract\<close> object resolves to: something the object had
  before \<open>generate_methods\<close> ran, or one of the two closures \<open>generate_methods\<close> builds,
  which keep the function's name.
\<close>

datatype attr = Preexisting | ViewMethod string | TxMethod string

record contract =
  c_address :: string
  c_abi :: "abi_item list"
  c_provider :: provider
  c_contract :: web3_contract
  c_attrs :: "string \<rightharpoonup> attr"

text \<open>\<open>hasattr(self, func_name)\<close>.\<close>

definition hasattr :: "contract \<Rightarrow> string \<Rightarrow> bool" where
  "hasattr c func_name = (c_attrs c func_name \<noteq> None)"

text \<open>Lines 82-83: \<open>item.get("stateMutability", "") in ["view", "pure"]\<close>.\<close>

definition is_view :: "abi_item \<Rightarrow> bool" where
  "is_view item =
     (case stateMutability item of
        None \<Rightarrow> False
      | Some m \<Rightarrow> m = ''view'' \<or> m = ''pure'')"

text \<open>The loop of \<open>generate_methods\<close>, over the entries that are left. A function entry
  with no \<open>name\<close> key raises \<open>KeyError\<close> at line 75.\<close>

fun generate_loop :: "abi_item list \<Rightarrow> contract \<Rightarrow> error + contract" where
  "generate_loop [] c = Inr c"
| "generate_loop (item # rest) c =
     (if item_type item \<noteq> Some ''function'' then generate_loop rest c
      else case item_name item of
        None \<Rightarrow> Inl (KeyError ''name'')
      | Some func_name \<Rightarrow>
          if hasattr c func_name then generate_loop rest c
          else if is_view item
          then generate_loop rest (c\<lparr>c_attrs := (c_attrs c)(func_name \<mapsto> ViewMethod func_name)\<rparr>)
          else generate_loop rest (c\<lparr>c_attrs := (c_attrs c)(func_name \<mapsto> TxMethod func_name)\<rparr>))"

definition generate_methods :: "contract \<Rightarrow> error + contract" where
  "generate_methods c = generate_loop (c_abi c) c"

text \<open>
  The attributes a \<open>Contract\<close> has when \<open>generate_methods\<close> starts: the four that
  \<open>__init__\<close> assigns, the names the class body defines, and whatever the object model
  of the interpreter adds (\<open>__class__\<close>, \<open>__dict__\<close>, ...), which is a parameter.
\<close>

definition instance_attrs :: "string list" where
  "instance_attrs = [''address'', ''abi'', ''provider'', ''_contract'']"

definition class_attrs :: "string list" where
  "class_attrs = [''__init__'', ''generate_methods'', ''call'', ''send'', ''estimate_gas'',
                  ''from_config'']"

definition initial_attrs :: "string list \<Rightarrow> (string \<rightharpoonup> attr)" where
  "initial_attrs inherited =
     map_of (map (\<lambda>n. (n, Preexisting)) (instance_attrs @ class_attrs @ inherited))"

text \<open>The arguments \<open>abi\<close> and \<open>provider\<close> of \<open>__init__\<close>: a list of entries or a string; a
  \<open>Provider\<close>, a string, or anything else.\<close>

datatype abi_arg = AbiList "abi_item list" | AbiName string

datatype provider_arg = ProviderObject provider | ProviderUrl string | NoProvider

definition endswith :: "string \<Rightarrow> string \<Rightarrow> bool" where
  "endswith s suffix =
     (length suffix \<le> length s \<and> drop (length s - length suffix) s = suffix)"

text \<open>A constructor call of \<open>Provider\<close>: the object, or the exception that leaves it.\<close>

definition constructed :: "error option \<times> provider \<Rightarrow> error + provider" where
  "constructed res = (case fst res of Some e \<Rightarrow> Inl e | None \<Rightarrow> Inr (snd res))"

text \<open>
  \<open>Contract.__init__\<close>, lines 41-64: the checksum address, the schema, the provider, the
  handle read through the accessor \<open>w3\<close> and the contract object built by the factory.
  Each step may raise. \<open>env1\<close> holds the answers of the network while a \<open>Provider\<close> is
  constructed, \<open>env2\<close> those while the accessor is read.
\<close>

definition init_fields ::
  "string list \<Rightarrow> web3_lib \<Rightarrow> net \<Rightarrow> net \<Rightarrow> string \<Rightarrow> abi_arg \<Rightarrow> provider_arg
     \<Rightarrow> error + contract" where
  "init_fields inherited lib3 env1 env2 address abi provider =
     bind_err (to_checksum_address lib3 address) (\<lambda>addr.
     bind_err (case abi of
                 AbiList l \<Rightarrow> Inr l
               | AbiName s \<Rightarrow> if endswith s ''.json'' then abi_from_file lib3 s
                              else abi_from_name lib3 s) (\<lambda>schema.
     bind_err (case provider of
                 ProviderObject p \<Rightarrow> Inr p
               | ProviderUrl u \<Rightarrow> constructed (Provider_init env1 (Url u) HTTP 30 3 None)
               | NoProvider \<Rightarrow> constructed (get_provider env1 (getenv lib3) None ETHEREUM)) (\<lambda>prov.
     bind_err (fst (w3_accessor env2 prov)) (\<lambda>handle.
     bind_err (contract_factory lib3 addr schema) (\<lambda>w.
     Inr \<lparr>c_address = addr, c_abi = schema, c_provider = snd (w3_accessor env2 prov),
          c_contract = w, c_attrs = initial_attrs inherited\<rparr>)))))"

text \<open>\<open>Contract.__init__\<close>: lines 41-64, then \<open>generate_methods\<close> at line 67.\<close>

definition Contract_init ::
  "string list \<Rightarrow> web3_lib \<Rightarrow> net \<Rightarrow> net \<Rightarrow> string \<Rightarrow> abi_arg \<Rightarrow> provider_arg
     \<Rightarrow> error + contract" where
  "Contract_init inherited lib3 env1 env2 address abi provider =
     bind_err (init_fields inherited lib3 env1 env2 address abi provider) generate_methods"

subsection \<open>The two paths\<close>

definition call :: "contract \<Rightarrow> string \<Rightarrow> pyval list \<Rightarrow> pydict \<Rightarrow> error + pyval" where
  "call c function_name args kw = function_call (c_contract c) function_name args kw"

text \<open>A keyword argument with its default, as the signature of \<open>send\<close> binds it.\<close>

definition kwarg :: "pydict \<Rightarrow> string \<Rightarrow> pyval \<Rightarrow> pyval" where
  "kwarg kw k dflt = (case map_of kw k of None \<Rightarrow> dflt | Some v \<Rightarrow> v)"

text \<open>What is left for \<open>**kwargs\<close> of \<open>send\<close>.\<close>

definition rest_kwargs :: "pydict \<Rightarrow> pydict" where
  "rest_kwargs kw =
     filter (\<lambda>kv. fst kv \<notin> set [''signer'', ''gas'', ''gas_price'', ''value'']) kw"

text \<open>Lines 135-138: a string is turned into an account by \<open>Account.from_key\<close>, any other
  object is taken as the account (\<open>None\<close> here when it is not one).\<close>

definition load_account :: "eth_account \<Rightarrow> pyval \<Rightarrow> error + account option" where
  "load_account lib s =
     (case s of
        VStr k \<Rightarrow> bind_err (Account_from_key lib k) (\<lambda>a. Inr (Some a))
      | VAccount a \<Rightarrow> Inr (Some a)
      | _ \<Rightarrow> Inr None)"

text \<open>Line 145: \<open>gas_price or self.provider.get_gas_price()\<close>.\<close>

definition gas_price_used :: "eth \<Rightarrow> pydict \<Rightarrow> error + pyval" where
  "gas_price_used node kw =
     (if truthy (kwarg kw ''gas_price'' VNone) then Inr (kwarg kw ''gas_price'' VNone)
      else bind_err (gas_price node) (\<lambda>g. Inr (VInt g)))"

text \<open>Lines 142-149: the dictionary handed to \<open>build_transaction\<close>.\<close>

definition tx_params :: "account \<Rightarrow> pydict \<Rightarrow> pyval \<Rightarrow> int \<Rightarrow> pydict" where
  "tx_params acct kw gp nonce =
     dict_merge
       [(''from'', VStr (acct_address acct)),
        (''gas'', if truthy (kwarg kw ''gas'' VNone) then kwarg kw ''gas'' VNone else VInt 200000),
        (''gasPrice'', gp),
        (''nonce'', VInt nonce),
        (''value'', kwarg kw ''value'' (VInt 0))]
       (rest_kwargs kw)"

text \<open>
  \<open>send\<close>, with the keyword arguments of the call as one dictionary. The reads
  \<open>self.provider.get_gas_price()\<close> and \<open>self.provider.w3.eth.get_transaction_count\<close>
  are answers of the node. The steps are in the order Python evaluates them: the
  function object and its call first, then the entries of the dictionary from left to
  right.
\<close>

definition send ::
  "eth_account \<Rightarrow> eth \<Rightarrow> contract \<Rightarrow> string \<Rightarrow> pyval list \<Rightarrow> pydict \<Rightarrow> error + string" where
  "send lib node c function_name args kw =
     (if \<not> truthy (kwarg kw ''signer'' VNone)
      then Inl (ValueError ''Signer (private key) required for transactions'')
      else
        bind_err (load_account lib (kwarg kw ''signer'' VNone)) (\<lambda>acc.
        bind_err (function_bind (c_contract c) function_name args) (\<lambda>_.
        bind_err (case acc of None \<Rightarrow> Inl (AttributeError ''address'') | Some a \<Rightarrow> Inr a) (\<lambda>account.
        bind_err (gas_price_used node kw) (\<lambda>gp.
        bind_err (get_transaction_count node (acct_address account)) (\<lambda>nonce.
        bind_err (build_transaction (c_contract c) function_name args
                    (tx_params account kw gp nonce)) (\<lambda>tx.
        bind_err (Account_sign_transaction lib account tx) (\<lambda>signed_tx.
        bind_err (send_raw_transaction node (rawTransaction signed_tx)) (\<lambda>tx_hash.
        Inr (hex node tx_hash))))))))))"

text \<open>
  Calling the attribute \<open>name\<close> of the dispatcher with positional and keyword
  arguments. A generated view method hands all of them to \<open>call\<close>, a generated
  transaction method to \<open>send\<close>. \<open>None\<close>: the name is not a generated method.
\<close>

datatype outcome = Decoded pyval | TxHash string

definition invoke ::
  "eth_account \<Rightarrow> eth \<Rightarrow> contract \<Rightarrow> string \<Rightarrow> pyval list \<Rightarrow> pydict
     \<Rightarrow> (error + outcome) option" where
  "invoke lib node c name args kw =
     (case c_attrs c name of
        Some (ViewMethod n) \<Rightarrow> Some (bind_err (call c n args kw) (\<lambda>v. Inr (Decoded v)))
      | Some (TxMethod n) \<Rightarrow> Some (bind_err (send lib node c n args kw) (\<lambda>h. Inr (TxHash h)))
      | _ \<Rightarrow> None)"

subsection \<open>Vocabulary for the properties of the dispatcher\<close>

text \<open>A function entry with the name \<open>n\<close>; the first such entry of a schema; the closure
  that \<open>generate_methods\<close> builds for an entry.\<close>

definition is_function_named :: "string \<Rightarrow> abi_item \<Rightarrow> bool" where
  "is_function_named n item = (item_type item = Some ''function'' \<and> item_name item = Some n)"

definition first_function :: "abi_item list \<Rightarrow> string \<Rightarrow> abi_item option" where
  "first_function abi n = find (is_function_named n) abi"

definition method_of :: "abi_item \<Rightarrow> string \<Rightarrow> attr" where
  "method_of item n = (if is_view item then ViewMethod n else TxMethod n)"

text \<open>Every function entry carries a name, as the schema format requires.\<close>

definition named_functions :: "abi_item list \<Rightarrow> bool" where
  "named_functions abi = list_all (\<lambda>e. item_type e \<noteq> Some ''function'' \<or> item_name e \<noteq> None) abi"

text \<open>The schema without the entry at position \<open>j\<close>.\<close>

definition without :: "nat \<Rightarrow> 'a list \<Rightarrow> 'a list" where
  "without j xs = take j xs @ drop (Suc j) xs"

text \<open>The attribute a name resolves to after a construction that may have raised.\<close>

definition lookup_attr :: "error + contract \<Rightarrow> string \<Rightarrow> error + attr option" where
  "lookup_attr r n = (case r of Inl e \<Rightarrow> Inl e | Inr c \<Rightarrow> Inr (c_attrs c n))"

subsection \<open>Schemas and collaborators for the examples\<close>

definition fn_entry :: "string \<Rightarrow> string \<Rightarrow> string list \<Rightarrow> abi_item" where
  "fn_entry n m ins =
     \<lparr>item_type = Some ''function'', item_name = Some n, stateMutability = Some m,
      item_inputs = ins\<rparr>"





definition with_call :: "abi_item list" where
  "with_call = [fn_entry ''call'' ''view'' [], fn_entry ''balanceOf'' ''view'' [''address'']]"

text \<open>
  A stand-in for the web3 contract object that, as web3 does for overloaded functions,
  picks among the entries of the called name the one whose number of inputs is the
  number of arguments. A call answers with the position of the entry it picked.
\<close>

definition resolve :: "abi_item list \<Rightarrow> string \<Rightarrow> pyval list \<Rightarrow> nat option" where
  "resolve abi n args =
     find (\<lambda>k. is_function_named n (abi ! k) \<and> length (item_inputs (abi ! k)) = length args)
       [0..<length abi]"

definition by_arity :: "abi_item list \<Rightarrow> web3_contract" where
  "by_arity abi =
     \<lparr>function_call = (\<lambda>n args kw. case resolve abi n args of
          None \<Rightarrow> Inl (LibraryError ''no matching function'')
        | Some k \<Rightarrow> Inr (VInt (int k))),
      function_bind = (\<lambda>n args. case resolve abi n args of
          None \<Rightarrow> Inl (LibraryError ''no matching function'')
        | Some k \<Rightarrow> Inr ()),
      build_transaction = (\<lambda>n args params. Inr params)\<rparr>"

definition lib3_demo :: web3_lib where
  "lib3_demo =
     \<lparr>to_checksum_address = (\<lambda>a. Inr a),
      contract_factory = (\<lambda>a abi. Inr (by_arity abi)),
      abi_from_file = (\<lambda>path. Inl (LibraryError ''ABI file not found'')),
      abi_from_name = (\<lambda>name. Inl (LibraryError ''Could not find ABI'')),
      getenv = (\<lambda>var. None)\<rparr>"


text \<open>The dispatcher that construction builds over a schema, with the connected manager of
  the examples, when nothing before line 67 raises.\<close>

definition built :: "abi_item list \<Rightarrow> (string \<rightharpoonup> attr) \<Rightarrow> contract" where
  "built abi attrs =
     \<lparr>c_address = ''0xC'', c_abi = abi, c_provider = prov_one, c_contract = by_arity abi,
      c_attrs = attrs\<rparr>"

section \<open>Properties of the connection manager\<close>

text \<open>The two equations unfold each other; they are applied by hand.\<close>

declare connect.simps [simp del] failover.simps [simp del]

lemma py_index_in: "0 \<le> i \<Longrightarrow> i < int (length xs) \<Longrightarrow> py_index xs i = Some (xs ! nat i)"
  by (simp add: py_index_def)

text \<open>\<open>connect\<close> and \<open>failover\<close> assign nothing but the index, the handle and the count of
  objects, and the index and the count only grow.\<close>

lemma connect_failover_frame:
  "rpc_urls (snd (connect env p)) = rpc_urls p \<and> provider_type (snd (connect env p)) = provider_type p
   \<and> timeout (snd (connect env p)) = timeout p \<and> retry_count (snd (connect env p)) = retry_count p
   \<and> chain (snd (connect env p)) = chain p
   \<and> current_provider_index p \<le> current_provider_index (snd (connect env p))
   \<and> objects_built p \<le> objects_built (snd (connect env p))"
  "rpc_urls (snd (failover env p)) = rpc_urls p \<and> provider_type (snd (failover env p)) = provider_type p
   \<and> timeout (snd (failover env p)) = timeout p \<and> retry_count (snd (failover env p)) = retry_count p
   \<and> chain (snd (failover env p)) = chain p
   \<and> current_provider_index p \<le> current_provider_index (snd (failover env p))
   \<and> objects_built p \<le> objects_built (snd (failover env p))"
proof (induction env p and env p rule: connect_failover.induct)
  case (1 env p)
  show ?case
    using 1 by (subst (1 2 3 4 5 6 7) connect.simps) (auto split: option.splits)
next
  case (2 env p)
  show ?case
    using 2 by (subst (1 2 3 4 5 6 7) failover.simps) auto
qed

lemma connect_failover_bound:
  "current_provider_index p < int (length (rpc_urls p)) \<Longrightarrow>
     current_provider_index (snd (connect env p)) < int (length (rpc_urls p))"
  "current_provider_index p < int (length (rpc_urls p)) \<Longrightarrow>
     current_provider_index (snd (failover env p)) < int (length (rpc_urls p))"
proof (induction env p and env p rule: connect_failover.induct)
  case (1 env p)
  then show ?case
    by (subst connect.simps) (auto split: option.splits)
next
  case (2 env p)
  then show ?case
    by (subst failover.simps) auto
qed

text \<open>The handle held was built before: its number is below the count.\<close>

lemma connect_failover_older:
  "(\<forall>h. w3 p = Some h \<longrightarrow> handle_id h < objects_built p) \<Longrightarrow>
     (\<forall>h. w3 (snd (connect env p)) = Some h \<longrightarrow> handle_id h < objects_built (snd (connect env p)))"
  "(\<forall>h. w3 p = Some h \<longrightarrow> handle_id h < objects_built p) \<Longrightarrow>
     (\<forall>h. w3 (snd (failover env p)) = Some h \<longrightarrow> handle_id h < objects_built (snd (failover env p)))"
proof (induction env p and env p rule: connect_failover.induct)
  case (1 env p)
  then show ?case
    by (subst (1 2) connect.simps) (auto simp: new_handle_def split: option.splits)
next
  case (2 env p)
  then show ?case
    by (subst (1 2) failover.simps) auto
qed

lemma opened_before_empty [simp]: "opened_before env a a = 0"
  by (simp add: opened_before_def)

lemma opened_before_first:
  "a < b \<Longrightarrow> opened_before env a b = (if opens env a then 1 else 0) + opened_before env (a + 1) b"
proof -
  assume "a < b"
  then have "[a..b - 1] = a # [a + 1..b - 1]" by (simp add: upto_rec1)
  then show ?thesis by (simp add: opened_before_def)
qed

lemma installed_from_upd [simp]:
  "installed_from env (p\<lparr>current_provider_index := k\<rparr>) a j = installed_from env p a j"
  "installed_from env (p\<lparr>w3 := h\<rparr>) a j = installed_from env p a j"
  by (simp_all add: installed_from_def)

lemma installed_from_skip:
  "a < j \<Longrightarrow> \<not> opens env a \<Longrightarrow> installed_from env p (a + 1) j = installed_from env p a j"
  by (simp add: installed_from_def opened_before_first)

lemma installed_from_built:
  "a < j \<Longrightarrow> opens env a \<Longrightarrow>
     installed_from env (p\<lparr>objects_built := objects_built p + 1\<rparr>) (a + 1) j = installed_from env p a j"
  by (simp add: installed_from_def opened_before_first)

lemma after_attempt_fields [simp]:
  "rpc_urls (after_attempt env p) = rpc_urls p"
  "chain (after_attempt env p) = chain p"
  "provider_type (after_attempt env p) = provider_type p"
  "timeout (after_attempt env p) = timeout p"
  "retry_count (after_attempt env p) = retry_count p"
  "current_provider_index (after_attempt env p) = current_provider_index p"
  by (simp_all add: after_attempt_def)

text \<open>One attempt: a call of \<open>connect\<close> at a valid index returns after a successful attempt,
  and goes on in \<open>failover\<close> after a failed one.\<close>

lemma connect_attempt:
  assumes "0 \<le> current_provider_index p" "current_provider_index p < int (length (rpc_urls p))"
  shows "connect env p =
           (if attempt_ok env (chain p) (current_provider_index p) then (None, after_attempt env p)
            else failover env (after_attempt env p))"
proof -
  have ix: "py_index (rpc_urls p) (current_provider_index p)
              = Some (rpc_urls p ! nat (current_provider_index p))"
    using assms by (rule py_index_in)
  show ?thesis
    by (subst connect.simps)
       (auto simp: ix attempt_ok_def after_attempt_def installed_def installed_from_def new_handle_def)
qed

lemma connect_unfold:
  assumes "0 \<le> current_provider_index p" "current_provider_index p < int (length (rpc_urls p))"
  shows "connect env p =
           (if attempt_ok env (chain p) (current_provider_index p) then (None, after_attempt env p)
            else if current_provider_index p < int (length (rpc_urls p)) - 1
            then connect env ((after_attempt env p)\<lparr>current_provider_index := current_provider_index p + 1\<rparr>)
            else (Some (ConnectionError ''All RPC endpoints failed''), after_attempt env p))"
  by (simp add: connect_attempt[OF assms] failover.simps[of env "after_attempt env p"])

lemma installed_from_next:
  "current_provider_index p < j \<Longrightarrow>
     installed_from env ((after_attempt env p)\<lparr>current_provider_index := k\<rparr>)
        (current_provider_index p + 1) j
       = installed_from env p (current_provider_index p) j"
  by (simp add: after_attempt_def installed_from_def opened_before_first)

lemma objects_built_next:
  "current_provider_index p < m \<Longrightarrow>
     objects_built (after_attempt env p) + opened_before env (current_provider_index p + 1) m
       = objects_built p + opened_before env (current_provider_index p) m"
  by (simp add: after_attempt_def opened_before_first)

text \<open>When every attempt from the active index up to \<open>m\<close> fails and the one at \<open>m\<close>
  succeeds, \<open>connect\<close> returns with the index at \<open>m\<close>.\<close>

lemma connect_reaches:
  "0 \<le> current_provider_index p \<Longrightarrow> current_provider_index p \<le> m \<Longrightarrow>
   m < int (length (rpc_urls p)) \<Longrightarrow>
   (\<forall>i. current_provider_index p \<le> i \<and> i < m \<longrightarrow> \<not> attempt_ok env (chain p) i) \<Longrightarrow>
   attempt_ok env (chain p) m \<Longrightarrow>
   connect env p
     = (None, p\<lparr>current_provider_index := m,
                 w3 := Some (installed_from env p (current_provider_index p) m),
                 objects_built := objects_built p + opened_before env (current_provider_index p) m + 1\<rparr>)"
proof (induction "nat (m - current_provider_index p)" arbitrary: p)
  case 0
  then have e: "current_provider_index p = m" by simp
  have "opens env m" using "0.prems"(5) by (simp add: attempt_ok_def)
  then have "after_attempt env p
      = p\<lparr>current_provider_index := m, w3 := Some (installed_from env p m m),
           objects_built := objects_built p + 1\<rparr>"
    using e by (simp add: after_attempt_def installed_def)
  then show ?case
    using connect_unfold[of p env] "0.prems" e by simp
next
  case (Suc n)
  let ?i = "current_provider_index p"
  let ?q = "(after_attempt env p)\<lparr>current_provider_index := ?i + 1\<rparr>"
  have lt: "?i < m" using Suc.hyps(2) by simp
  have bad: "\<not> attempt_ok env (chain p) ?i" using Suc.prems(4) lt by simp
  have c: "connect env p = connect env ?q"
    using connect_unfold[of p env] Suc.prems lt bad by simp
  have "connect env ?q
     = (None, ?q\<lparr>current_provider_index := m,
                 w3 := Some (installed_from env ?q (current_provider_index ?q) m),
                 objects_built := objects_built ?q + opened_before env (current_provider_index ?q) m + 1\<rparr>)"
  proof (rule Suc.hyps(1))
    show "n = nat (m - current_provider_index ?q)" using Suc.hyps(2) by simp
    show "\<forall>i. current_provider_index ?q \<le> i \<and> i < m \<longrightarrow> \<not> attempt_ok env (chain ?q) i"
      using Suc.prems(4) by simp
  qed (use Suc.prems lt in simp_all)
  also have "\<dots> = (None, p\<lparr>current_provider_index := m,
                 w3 := Some (installed_from env p ?i m),
                 objects_built := objects_built p + opened_before env ?i m + 1\<rparr>)"
    using installed_from_next[OF lt, of env "?i + 1"] objects_built_next[OF lt, of env]
    by (simp add: after_attempt_def)
  finally show ?case using c by simp
qed

text \<open>When every remaining attempt fails, the error of \<open>failover\<close> leaves the call.\<close>

lemma connect_exhausts:
  "0 \<le> current_provider_index p \<Longrightarrow> current_provider_index p < int (length (rpc_urls p)) \<Longrightarrow>
   (\<forall>i. current_provider_index p \<le> i \<and> i < int (length (rpc_urls p)) \<longrightarrow> \<not> attempt_ok env (chain p) i) \<Longrightarrow>
   fst (connect env p) = Some (ConnectionError ''All RPC endpoints failed'')"
proof (induction "nat (int (length (rpc_urls p)) - current_provider_index p)" arbitrary: p)
  case 0
  then show ?case by simp
next
  case (Suc n)
  let ?i = "current_provider_index p"
  let ?q = "(after_attempt env p)\<lparr>current_provider_index := ?i + 1\<rparr>"
  have bad: "\<not> attempt_ok env (chain p) ?i" using Suc.prems by simp
  show ?case
  proof (cases "?i < int (length (rpc_urls p)) - 1")
    case True
    have "fst (connect env ?q) = Some (ConnectionError ''All RPC endpoints failed'')"
    proof (rule Suc.hyps(1))
      show "n = nat (int (length (rpc_urls ?q)) - current_provider_index ?q)"
        using Suc.hyps(2) by simp
    qed (use Suc.prems True in simp_all)
    then show ?thesis using connect_unfold[of p env] Suc.prems True bad by simp
  next
    case False
    then show ?thesis using connect_unfold[of p env] Suc.prems bad by simp
  qed
qed


lemma step_frame:
  assumes "step p p'"
  shows "rpc_urls p' = rpc_urls p \<and> current_provider_index p \<le> current_provider_index p'
         \<and> (current_provider_index p < int (length (rpc_urls p))
              \<longrightarrow> current_provider_index p' < int (length (rpc_urls p)))
         \<and> ((\<forall>h. w3 p = Some h \<longrightarrow> handle_id h < objects_built p)
              \<longrightarrow> (\<forall>h. w3 p' = Some h \<longrightarrow> handle_id h < objects_built p'))"
proof -
  have c: ?thesis if "p' = snd (connect env p)" for env
    using that connect_failover_frame(1)[of env p] connect_failover_bound(1)[of p env]
      connect_failover_older(1)[of p env] by simp
  show ?thesis
    using assms
  proof cases
    case (step_connect env r)
    then have "p' = snd (connect env p)" by simp
    then show ?thesis by (rule c)
  next
    case (step_failover env r)
    then have "p' = snd (failover env p)" by simp
    then show ?thesis
      using connect_failover_frame(2)[of env p] connect_failover_bound(2)[of p env]
        connect_failover_older(2)[of p env] by simp
  next
    case (step_w3 env v)
    then have "p' = p \<or> p' = snd (connect env p)"
      by (auto simp: w3_accessor_def reconnect_def split: if_splits prod.splits option.splits sum.splits)
    then show ?thesis using c by auto
  qed
qed

lemma steps_mono:
  "step\<^sup>*\<^sup>* p p' \<Longrightarrow> current_provider_index p \<le> current_provider_index p'"
proof (induction rule: rtranclp_induct)
  case base
  show ?case by simp
next
  case (step y z)
  then show ?case using step_frame[of y z] by simp
qed

lemma reachable_invariant:
  "reachable p \<Longrightarrow>
     0 \<le> current_provider_index p \<and> current_provider_index p < int (length (rpc_urls p))
     \<and> (\<forall>h. w3 p = Some h \<longrightarrow> handle_id h < objects_built p)"
proof (induction rule: reachable.induct)
  case (reach_init env rpc_url ptype tmo retries ch p)
  define p0 where "p0 = \<lparr>rpc_urls = (case rpc_url of Url s \<Rightarrow> [s] | Urls l \<Rightarrow> l),
        provider_type = ptype, timeout = tmo, retry_count = retries, chain = ch,
        current_provider_index = 0, w3 = None, objects_built = 0\<rparr>"
  have c: "connect env p0 = (None, p)"
    using reach_init by (simp add: Provider_init_def p0_def)
  have ne: "rpc_urls p0 \<noteq> []"
  proof
    assume "rpc_urls p0 = []"
    then have "connect env p0 = (Some IndexError, p0)"
      by (subst connect.simps) (simp add: py_index_def p0_def)
    then show False using c by simp
  qed
  have "p = snd (connect env p0)" using c by simp
  then show ?case
    using connect_failover_frame(1)[of env p0] connect_failover_bound(1)[of p0 env]
      connect_failover_older(1)[of p0 env] ne
    by (simp add: p0_def)
next
  case (reach_step p p')
  then show ?case using step_frame[of p p'] by auto
qed

text \<open>
  Claim C5. In every state of a manager that \<open>__init__\<close> returned and that \<open>connect\<close>,
  \<open>failover\<close> and the accessor \<open>w3\<close> then acted on, the active index is a valid index
  of the endpoint list whenever a handle is held (in fact always), and no sequence of these
  operations makes the active index smaller.
\<close>

theorem C5_index_in_range_and_monotonic:
  "reachable p \<Longrightarrow>
     (w3 p \<noteq> None \<longrightarrow> 0 \<le> current_provider_index p \<and> current_provider_index p < int (length (rpc_urls p)))
   \<and> (\<forall>p'. step\<^sup>*\<^sup>* p p' \<longrightarrow> current_provider_index p \<le> current_provider_index p')"
  using reachable_invariant[of p] steps_mono[of p] by blast

text \<open>The equations that evaluate a call on the managers of the examples.\<close>

lemmas eval_connect =
  connect.simps failover.simps py_index_def needs_poa_def new_handle_def handle_x_def handle_y_def
  prov_two_def prov_one_def

lemma init_two_up:
  "Provider_init net_up (Urls [''bad://x'', ''good://y'']) HTTP 30 3 None
     = (None, prov_two\<lparr>w3 := Some (handle_x 0), objects_built := 1\<rparr>)"
  by (simp add: Provider_init_def eval_connect net_up_def)

lemma init_one_up:
  "Provider_init net_up (Url ''bad://x'') HTTP 30 3 None = (None, prov_one)"
  by (simp add: Provider_init_def eval_connect net_up_def)

lemma reachable_two: "reachable (prov_two\<lparr>w3 := Some (handle_x 0), objects_built := 1\<rparr>)"
  by (rule reach_init[OF init_two_up])

lemma failover_two_dead:
  "failover net_dead (prov_two\<lparr>w3 := Some (handle_x 0), objects_built := 1\<rparr>)
     = (Some (ConnectionError ''All RPC endpoints failed''),
        prov_two\<lparr>current_provider_index := 1, w3 := Some (handle_y 1), objects_built := 2\<rparr>)"
  by (simp add: eval_connect net_dead_def)

theorem C5_witness:
  "reachable (prov_two\<lparr>w3 := Some (handle_x 0), objects_built := 1\<rparr>)
   \<and> w3 (prov_two\<lparr>w3 := Some (handle_x 0), objects_built := 1\<rparr>) \<noteq> None
   \<and> 0 \<le> current_provider_index (prov_two\<lparr>w3 := Some (handle_x 0), objects_built := 1\<rparr>)
   \<and> current_provider_index (prov_two\<lparr>w3 := Some (handle_x 0), objects_built := 1\<rparr>)
        < int (length (rpc_urls (prov_two\<lparr>w3 := Some (handle_x 0), objects_built := 1\<rparr>)))
   \<and> step\<^sup>*\<^sup>* (prov_two\<lparr>w3 := Some (handle_x 0), objects_built := 1\<rparr>)
        (prov_two\<lparr>current_provider_index := 1, w3 := Some (handle_y 1), objects_built := 2\<rparr>)
   \<and> current_provider_index (prov_two\<lparr>w3 := Some (handle_x 0), objects_built := 1\<rparr>)
        \<le> current_provider_index
             (prov_two\<lparr>current_provider_index := 1, w3 := Some (handle_y 1), objects_built := 2\<rparr>)"
proof -
  have h: "w3 (prov_two\<lparr>w3 := Some (handle_x 0), objects_built := 1\<rparr>) \<noteq> None" by simp
  have s: "step\<^sup>*\<^sup>* (prov_two\<lparr>w3 := Some (handle_x 0), objects_built := 1\<rparr>)
        (prov_two\<lparr>current_provider_index := 1, w3 := Some (handle_y 1), objects_built := 2\<rparr>)"
    using step_failover[OF failover_two_dead] by (rule r_into_rtranclp)
  show ?thesis
    using C5_index_in_range_and_monotonic[OF reachable_two] reachable_two h s by blast
qed

text \<open>
  Claim C1, for a non-empty endpoint list of length N. If the attempts at the first N-1
  endpoints fail and the attempt at the last one succeeds, construction (which runs
  \<open>connect\<close> from index 0) returns with the handle of the last endpoint installed and
  the active index N-1. If all N attempts fail, it raises the error of \<open>failover\<close>,
  \<open>ConnectionError("All RPC endpoints failed")\<close>.
\<close>

theorem C1_failover_reaches_last_endpoint:
  assumes "urls \<noteq> []"
  shows "((\<forall>i. 0 \<le> i \<and> i < int (length urls) - 1 \<longrightarrow> \<not> attempt_ok env ch i)
           \<and> attempt_ok env ch (int (length urls) - 1)
          \<longrightarrow> Provider_init env (Urls urls) ptype tmo retries ch
                = (None, \<lparr>rpc_urls = urls, provider_type = ptype, timeout = tmo,
                          retry_count = retries, chain = ch,
                          current_provider_index = int (length urls) - 1,
                          w3 = Some \<lparr>endpoint = last urls, transport = ptype, handle_timeout = tmo,
                                     poa_middleware = needs_poa ch,
                                     handle_id = opened_before env 0 (int (length urls) - 1)\<rparr>,
                          objects_built = opened_before env 0 (int (length urls) - 1) + 1\<rparr>))
       \<and> ((\<forall>i. 0 \<le> i \<and> i < int (length urls) \<longrightarrow> \<not> attempt_ok env ch i)
          \<longrightarrow> fst (Provider_init env (Urls urls) ptype tmo retries ch)
                = Some (ConnectionError ''All RPC endpoints failed''))"
proof -
  define p0 where "p0 = \<lparr>rpc_urls = urls, provider_type = ptype, timeout = tmo,
     retry_count = retries, chain = ch, current_provider_index = 0, w3 = None, objects_built = 0\<rparr>"
  have init: "Provider_init env (Urls urls) ptype tmo retries ch = connect env p0"
    by (simp add: Provider_init_def p0_def)
  have len: "0 < int (length urls)" using assms by simp
  have lst: "urls ! nat (int (length urls) - 1) = last urls"
  proof -
    have "nat (int (length urls) - 1) = length urls - 1" by simp
    then show ?thesis using assms by (simp add: last_conv_nth)
  qed
  show ?thesis
  proof (intro conjI impI)
    assume A: "(\<forall>i. 0 \<le> i \<and> i < int (length urls) - 1 \<longrightarrow> \<not> attempt_ok env ch i)
           \<and> attempt_ok env ch (int (length urls) - 1)"
    then have inj: "needs_poa ch \<longrightarrow> injects env (int (length urls) - 1)"
      by (simp add: attempt_ok_def)
    have "connect env p0 = (None, p0\<lparr>current_provider_index := int (length urls) - 1,
             w3 := Some (installed_from env p0 (current_provider_index p0) (int (length urls) - 1)),
             objects_built := objects_built p0
                + opened_before env (current_provider_index p0) (int (length urls) - 1) + 1\<rparr>)"
      using A len by (intro connect_reaches) (auto simp: p0_def)
    then show "Provider_init env (Urls urls) ptype tmo retries ch
                = (None, \<lparr>rpc_urls = urls, provider_type = ptype, timeout = tmo,
                          retry_count = retries, chain = ch,
                          current_provider_index = int (length urls) - 1,
                          w3 = Some \<lparr>endpoint = last urls, transport = ptype, handle_timeout = tmo,
                                     poa_middleware = needs_poa ch,
                                     handle_id = opened_before env 0 (int (length urls) - 1)\<rparr>,
                          objects_built = opened_before env 0 (int (length urls) - 1) + 1\<rparr>)"
      using lst inj by (auto simp add: init p0_def installed_from_def)
  next
    assume A: "\<forall>i. 0 \<le> i \<and> i < int (length urls) \<longrightarrow> \<not> attempt_ok env ch i"
    have "fst (connect env p0) = Some (ConnectionError ''All RPC endpoints failed'')"
      using A len by (intro connect_exhausts) (auto simp: p0_def)
    then show "fst (Provider_init env (Urls urls) ptype tmo retries ch)
                = Some (ConnectionError ''All RPC endpoints failed'')"
      by (simp add: init)
  qed
qed

theorem C1_witness:
  "Provider_init net_second (Urls [''bad://x'', ''good://y'']) HTTP 30 3 None
     = (None, \<lparr>rpc_urls = [''bad://x'', ''good://y''], provider_type = HTTP, timeout = 30,
               retry_count = 3, chain = None, current_provider_index = 1,
               w3 = Some \<lparr>endpoint = ''good://y'', transport = HTTP, handle_timeout = 30,
                          poa_middleware = False, handle_id = 1\<rparr>,
               objects_built = 2\<rparr>)
   \<and> fst (Provider_init net_dead (Urls [''bad://x'', ''good://y'']) HTTP 30 3 None)
       = Some (ConnectionError ''All RPC endpoints failed'')"
proof -
  have ne: "[''bad://x'', ''good://y''] \<noteq> []" by simp
  have a: "(\<forall>i. 0 \<le> i \<and> i < int (length [''bad://x'', ''good://y'']) - 1 \<longrightarrow> \<not> attempt_ok net_second None i)
           \<and> attempt_ok net_second None (int (length [''bad://x'', ''good://y'']) - 1)"
    by (simp add: attempt_ok_def net_second_def)
  have b: "\<forall>i. 0 \<le> i \<and> i < int (length [''bad://x'', ''good://y'']) \<longrightarrow> \<not> attempt_ok net_dead None i"
    by (simp add: attempt_ok_def net_dead_def)
  have c: "int (length [''bad://x'', ''good://y'']) - 1 = 1" "last [''bad://x'', ''good://y''] = ''good://y''"
          "needs_poa None = False" "opened_before net_second 0 1 = 1" "(1::nat) + 1 = 2"
    by (simp_all add: needs_poa_def opened_before_def net_second_def)
  show ?thesis
    using C1_failover_reaches_last_endpoint[OF ne, of net_second None HTTP 30 3, THEN conjunct1, THEN mp, OF a]
          C1_failover_reaches_last_endpoint[OF ne, of net_dead None HTTP 30 3, THEN conjunct2, THEN mp, OF b]
    unfolding c by (rule conjI)
qed

text \<open>For the empty endpoint list the indexing at line 86, outside the \<open>try\<close>, raises
  \<open>IndexError\<close>: the error of exhausted endpoints is not the one that leaves the call.\<close>

theorem C1_counterexample:
  "fst (Provider_init net_down (Urls []) HTTP 30 3 None) = Some IndexError
   \<and> fst (Provider_init net_down (Urls []) HTTP 30 3 None) \<noteq> Some (ConnectionError ''All RPC endpoints failed'')"
  by (simp add: Provider_init_def connect.simps py_index_def)








section \<open>Properties of the signer\<close>

lemma validate_key_cases:
  "validate_key key = (if list_all (\<lambda>c. c \<in> set hex_digits) key then Inr ()
                       else Inl (ValueError ''Key must be a valid hexadecimal string.''))"
  by (simp add: validate_key_def)

lemma key_a_hex: "list_all (\<lambda>c. c \<in> set hex_digits) key_a"
  by (simp add: key_a_def hex_digits_def list_all_iff)

lemma key_a_len: "length key_a = 64" "key_a \<noteq> []"
  by (auto simp: key_a_def)

lemma strip_0x_hex: "list_all (\<lambda>c. c \<in> set hex_digits) k \<Longrightarrow> strip_0x k = k"
proof (cases k)
  case Nil
  then show ?thesis by (simp add: strip_0x_def)
next
  case (Cons a k')
  assume h: "list_all (\<lambda>c. c \<in> set hex_digits) k"
  show ?thesis
  proof (cases k')
    case Nil
    then show ?thesis using Cons by (simp add: strip_0x_def)
  next
    case (Cons b k'')
    then have "b \<in> set hex_digits" using h \<open>k = a # k'\<close> by simp
    then have "b \<noteq> CHR ''x''" "b \<noteq> CHR ''X''" by (auto simp: hex_digits_def)
    then show ?thesis using Cons \<open>k = a # k'\<close> by (simp add: strip_0x_def)
  qed
qed

lemma lib_demo_from_key:
  "list_all (\<lambda>c. c \<in> set hex_digits) k \<Longrightarrow>
     Account_from_key lib_demo k
       = (if length k = 64 then Inr \<lparr>acct_address = ''0xA'', acct_key_hex = k\<rparr>
          else Inl (ValueError ''The private key must be exactly 32 bytes long''))"
  by (simp add: lib_demo_def strip_0x_hex spec_well_formed_secret_def)

lemma Wallet_init_key_a:
  "Wallet_init lib_demo (Some key_a)
     = Inr \<lparr>account = \<lparr>acct_address = ''0xA'', acct_key_hex = key_a\<rparr>, private_key = None,
            w_address = ''0xA''\<rparr>"
  using key_a_hex key_a_len
  by (simp add: Wallet_init_def validate_key_cases bind_err_def lib_demo_from_key)




text \<open>
  Claim C8 fails on the code for a signer built from a supplied key. The branch of
  \<open>__init__\<close> that takes a key does not assign \<open>self.private_key\<close> (line 16 is commented
  out), so \<open>export_key\<close> raises \<open>AttributeError\<close> at line 70 and writes nothing, for every
  password and path.
\<close>

theorem C8_export_of_supplied_key_raises:
  "Wallet_init lib (Some key) = Inr w \<Longrightarrow> key \<noteq> [] \<Longrightarrow>
     export_key lib sys files w password path = (Inl (AttributeError ''private_key''), files)"
  by (auto simp: Wallet_init_def export_key_def bind_err_def split: sum.splits)

theorem C8_witness:
  "Wallet_init lib_demo (Some key_a)
       = Inr \<lparr>account = \<lparr>acct_address = ''0xA'', acct_key_hex = key_a\<rparr>, private_key = None,
              w_address = ''0xA''\<rparr>
   \<and> key_a \<noteq> []
   \<and> export_key lib_demo node_demo Map.empty
        \<lparr>account = \<lparr>acct_address = ''0xA'', acct_key_hex = key_a\<rparr>, private_key = None,
              w_address = ''0xA''\<rparr> ''pw'' ''key.json''
       = (Inl (AttributeError ''private_key''), Map.empty)"
  using C8_export_of_supplied_key_raises[OF Wallet_init_key_a key_a_len(2), of node_demo Map.empty "''pw''" "''key.json''"]
        Wallet_init_key_a key_a_len(2)
  by blast

text \<open>For a freshly generated signer the export writes the encrypted key.\<close>

lemma export_key_fresh_wallet:
  "export_key lib_demo node_demo Map.empty (fresh_wallet lib_demo) ''pw'' ''key.json''
     = (Inr ''key.json'', [''key.json'' \<mapsto> ''enc:pw''])"
  by (simp add: export_key_def fresh_wallet_def lib_demo_def node_demo_def)


section \<open>Properties of the transaction pipeline\<close>

lemma send_transaction_demo:
  "send_transaction lib_demo node_demo tm_demo tx_with_nonce = (Inr ''0xh'', tm_demo)"
  by (simp add: send_transaction_def sign_transaction_def bind_err_def lib_demo_def node_demo_def
      tm_demo_def TransactionManager_init_def provider_web3_def tx_with_nonce_def tx_no_nonce_def)

text \<open>
  Claim C3 fails on the code. \<open>send_transaction\<close> hands the request to the signer as it
  is: its outcome does not depend on the nonce mode, on the cached nonce or on the
  transaction count of the node, and \<open>get_nonce\<close> is never called. For a request with no
  nonce, in the default mode, where \<open>get_nonce\<close> answers 7: the request reaches the
  signer without a nonce and is refused there; the same request with the nonce 7 is
  signed and submitted.
\<close>

theorem C3_send_signs_the_request_as_given:
  "fst (send_transaction lib (node\<lparr>get_transaction_count := g\<rparr>) (tm\<lparr>auto_nonce := a, nonce_cache := c\<rparr>) tx)
     = fst (send_transaction lib node tm tx)
   \<and> map_of tx_no_nonce ''nonce'' = None
   \<and> auto_nonce tm_demo
   \<and> get_nonce node_demo tm_demo False = Inr 7
   \<and> send_transaction lib_demo node_demo tm_demo tx_no_nonce
        = (Inl (TypeError ''Transaction must include these fields: nonce''), tm_demo)
   \<and> send_transaction lib_demo node_demo tm_demo (tx_no_nonce @ [(''nonce'', VInt 7)])
        = (Inr ''0xh'', tm_demo)"
  by (simp add: send_transaction_def sign_transaction_def bind_err_def lib_demo_def node_demo_def
      tm_demo_def TransactionManager_init_def provider_web3_def tx_no_nonce_def get_nonce_def)

text \<open>
  Claim C4 fails on the code. \<open>send_transaction\<close> never writes \<open>pending_txs\<close>: the map
  after the call is the map before it, so after a successful call on a new pipeline no
  entry is keyed by the returned hash. And on an instance of the class \<open>Provider\<close>, which
  has no attribute \<open>web3\<close>, no call returns a hash at all.
\<close>

theorem C4_send_registers_nothing:
  "pending_txs (snd (send_transaction lib node tm tx)) = pending_txs tm
   \<and> send_transaction lib_demo node_demo tm_demo tx_with_nonce = (Inr ''0xh'', tm_demo)
   \<and> pending_txs tm_demo ''0xh'' = None
   \<and> fst (send_transaction lib node (tm\<lparr>tm_provider := ProviderInstance p\<rparr>) tx) \<noteq> Inr h"
  by (auto simp add: send_transaction_def sign_transaction_def bind_err_def lib_demo_def node_demo_def
      tm_demo_def TransactionManager_init_def provider_web3_def tx_with_nonce_def tx_no_nonce_def
      split: sum.splits)

section \<open>Properties of the schema dispatcher\<close>

lemma generate_loop_frame:
  "generate_loop abi c = Inr c' \<Longrightarrow>
     c_address c' = c_address c \<and> c_abi c' = c_abi c \<and> c_provider c' = c_provider c
     \<and> c_contract c' = c_contract c"
  by (induction abi arbitrary: c) (auto split: if_splits option.splits)

text \<open>
  The attribute a name resolves to after the loop: what it resolved to before, and for a
  name the object did not have, the closure built for the first function entry of that
  name.
\<close>

lemma generate_loop_attrs:
  "generate_loop abi c = Inr c' \<Longrightarrow>
     c_attrs c' n = (case c_attrs c n of
                       Some a \<Rightarrow> Some a
                     | None \<Rightarrow> map_option (\<lambda>e. method_of e n) (first_function abi n))"
proof (induction abi arbitrary: c)
  case Nil
  then show ?case by (auto simp: first_function_def split: option.splits)
next
  case (Cons item rest)
  show ?case
  proof (cases "item_type item = Some ''function''")
    case False
    then have "generate_loop rest c = Inr c'" using Cons.prems by simp
    from Cons.IH[OF this] False show ?thesis
      by (auto simp: first_function_def is_function_named_def split: option.splits)
  next
    case True
    then obtain m where m: "item_name item = Some m"
      using Cons.prems by (cases "item_name item") auto
    show ?thesis
    proof (cases "hasattr c m")
      case h: True
      then have "generate_loop rest c = Inr c'" using Cons.prems True m by simp
      from Cons.IH[OF this] True m h show ?thesis
        by (auto simp: first_function_def is_function_named_def hasattr_def split: option.splits)
    next
      case h: False
      let ?c1 = "c\<lparr>c_attrs := (c_attrs c)(m \<mapsto> method_of item m)\<rparr>"
      have "generate_loop rest ?c1 = Inr c'"
        using Cons.prems True m h by (auto simp: method_of_def split: if_splits)
      from Cons.IH[OF this] True m h show ?thesis
        by (auto simp: first_function_def is_function_named_def hasattr_def split: option.splits)
    qed
  qed
qed

text \<open>The loop raises exactly when some function entry has no name.\<close>

lemma generate_loop_ok:
  "(\<exists>c'. generate_loop abi c = Inr c') = named_functions abi"
  by (induction abi arbitrary: c) (auto simp: named_functions_def split: option.splits)

lemma named_functions_without:
  "named_functions abi \<Longrightarrow> named_functions (without j abi)"
  unfolding named_functions_def without_def list_all_iff
  by (auto dest: in_set_takeD in_set_dropD)

lemma find_without:
  "j < length xs \<Longrightarrow> \<not> P (xs ! j) \<or> (\<exists>i<j. P (xs ! i)) \<Longrightarrow> find P (without j xs) = find P xs"
proof (induction xs arbitrary: j)
  case Nil
  then show ?case by simp
next
  case (Cons x xs)
  show ?case
  proof (cases j)
    case 0
    then show ?thesis using Cons.prems by (simp add: without_def)
  next
    case (Suc k)
    show ?thesis
    proof (cases "P x")
      case True
      then show ?thesis using Suc by (simp add: without_def)
    next
      case False
      have "\<not> P (xs ! k) \<or> (\<exists>i<k. P (xs ! i))"
      proof (cases "P (xs ! k)")
        case True
        then obtain i where i: "i < j" "P ((x # xs) ! i)" using Cons.prems(2) Suc by auto
        then have "i \<noteq> 0" using False by (cases i) auto
        then obtain i' where "i = Suc i'" by (cases i) auto
        then show ?thesis using i Suc by auto
      qed simp
      moreover have "k < length xs" using Cons.prems(1) Suc by simp
      ultimately have "find P (without k xs) = find P xs" by (rule Cons.IH[rotated])
      then show ?thesis using False Suc by (simp add: without_def)
    qed
  qed
qed


lemma initial_attrs_cases:
  "initial_attrs inherited n
     = (if n \<in> set (instance_attrs @ class_attrs @ inherited) then Some Preexisting else None)"
proof -
  have m: "map_of (map (\<lambda>n. (n, Preexisting)) xs) n = (if n \<in> set xs then Some Preexisting else None)" for xs
    by (induction xs) auto
  show ?thesis unfolding initial_attrs_def by (rule m)
qed

text \<open>Construction is lines 41-64, then method generation on the state they leave.\<close>

lemma init_fields_attrs:
  "init_fields inherited lib3 env1 env2 address abi provider = Inr c0 \<Longrightarrow>
     c_attrs c0 = initial_attrs inherited"
  by (auto simp: init_fields_def bind_err_def split: sum.splits)

lemma init_fields_list:
  "init_fields inherited lib3 env1 env2 address (AbiList l) provider = Inr c0 \<Longrightarrow> c_abi c0 = l"
  by (auto simp: init_fields_def bind_err_def split: sum.splits)

lemma Contract_init_split:
  "(Contract_init inherited lib3 env1 env2 address abi provider = Inr c')
     = (\<exists>c0. init_fields inherited lib3 env1 env2 address abi provider = Inr c0
             \<and> generate_methods c0 = Inr c')"
  by (auto simp: Contract_init_def bind_err_def split: sum.splits)

lemma generate_methods_reset:
  "generate_methods c0 = Inr c' \<Longrightarrow> c' \<lparr>c_attrs := c_attrs c0\<rparr> = c0 \<and> c_abi c' = c_abi c0
     \<and> c_contract c' = c_contract c0"
  using generate_loop_frame[of "c_abi c0" c0 c']
  by (simp add: generate_methods_def)

lemma generate_methods_attrs:
  "generate_methods c0 = Inr c' \<Longrightarrow> c_attrs c0 = initial_attrs inherited \<Longrightarrow>
     c_attrs c' n = (if n \<in> set (instance_attrs @ class_attrs @ inherited) then Some Preexisting
                     else map_option (\<lambda>e. method_of e n) (first_function (c_abi c0) n))"
  using generate_loop_attrs[of "c_abi c0" c0 c' n]
  by (simp add: generate_methods_def initial_attrs_cases)

lemma Contract_init_attrs:
  "Contract_init inherited lib3 env1 env2 address abi provider = Inr c' \<Longrightarrow>
     c_attrs c' n = (if n \<in> set (instance_attrs @ class_attrs @ inherited) then Some Preexisting
                     else map_option (\<lambda>e. method_of e n) (first_function (c_abi c') n))"
proof -
  assume "Contract_init inherited lib3 env1 env2 address abi provider = Inr c'"
  then obtain c0 where c0: "init_fields inherited lib3 env1 env2 address abi provider = Inr c0"
    "generate_methods c0 = Inr c'"
    using Contract_init_split by blast
  then show ?thesis
    using generate_methods_attrs[OF c0(2) init_fields_attrs[OF c0(1)], of n]
      generate_methods_reset[OF c0(2)] by simp
qed

text \<open>An entry whose name the object already has, or that an earlier function entry
  declares, leaves no trace: the schema without it builds the same attributes.\<close>

lemma generate_methods_without:
  assumes "generate_methods c0 = Inr c'" "c_attrs c0 = initial_attrs inherited"
    "j < length (c_abi c0)" "is_function_named n (c_abi c0 ! j)"
    "n \<in> set (instance_attrs @ class_attrs @ inherited) \<or> (\<exists>i<j. is_function_named n (c_abi c0 ! i))"
    "c_abi c1 = without j (c_abi c0)" "c_attrs c1 = initial_attrs inherited"
  shows "\<exists>c''. generate_methods c1 = Inr c'' \<and> c_attrs c'' = c_attrs c'"
proof -
  have "named_functions (c_abi c0)"
    using assms(1) generate_loop_ok[of "c_abi c0" c0] by (auto simp: generate_methods_def)
  then have "named_functions (c_abi c1)" using assms(6) by (simp add: named_functions_without)
  then obtain c'' where c'': "generate_methods c1 = Inr c''"
    using generate_loop_ok[of "c_abi c1" c1] by (auto simp: generate_methods_def)
  have "c_attrs c'' m = c_attrs c' m" for m
  proof (cases "m \<in> set (instance_attrs @ class_attrs @ inherited)")
    case True
    then show ?thesis
      using generate_methods_attrs[OF c'' assms(7)] generate_methods_attrs[OF assms(1,2)] by simp
  next
    case False
    have "\<not> is_function_named m (c_abi c0 ! j) \<or> (\<exists>i<j. is_function_named m (c_abi c0 ! i))"
    proof (cases "m = n")
      case True
      then show ?thesis using assms(5) False by auto
    next
      case False
      then show ?thesis using assms(4) by (auto simp: is_function_named_def)
    qed
    then have "first_function (without j (c_abi c0)) m = first_function (c_abi c0) m"
      unfolding first_function_def using assms(3) by (intro find_without) auto
    then show ?thesis
      using generate_methods_attrs[OF c'' assms(7), of m] generate_methods_attrs[OF assms(1,2), of m]
        False assms(6) by simp
  qed
  then have "c_attrs c'' = c_attrs c'" by (rule ext)
  then show ?thesis using c'' by blast
qed


lemma preexisting [simp]:
  "''send'' \<in> set (instance_attrs @ class_attrs @ inherited)"
  "''call'' \<in> set (instance_attrs @ class_attrs @ inherited)"
  by (simp_all add: instance_attrs_def class_attrs_def)






text \<open>The equations that evaluate construction on the examples.\<close>

lemmas eval_init =
  Contract_init_def init_fields_def bind_err_def lib3_demo_def w3_accessor_def net_up_def prov_one_def
  generate_methods_def fn_entry_def hasattr_def is_view_def initial_attrs_cases instance_attrs_def
  class_attrs_def built_def




lemma Contract_init_with_call:
  "Contract_init [] lib3_demo net_up net_up ''0xC'' (AbiList with_call) (ProviderObject prov_one)
     = Inr (built with_call ((initial_attrs [])(''balanceOf'' \<mapsto> ViewMethod ''balanceOf'')))"
  by (simp add: eval_init with_call_def)








text \<open>
  Claim C10. When construction returns, a name that the object had as an attribute
  before \<open>generate_methods\<close> ran resolves to what it resolved to before; calling it is
  not a call of a generated method; and every function entry of that name is skipped
  without a trace: method generation over the schema without the entry builds the same
  attributes, and so does construction from that schema whenever lines 41-64 do not
  raise for it. The names \<open>call\<close>, \<open>send\<close>, \<open>address\<close>, \<open>abi\<close>, \<open>provider\<close>,
  \<open>estimate_gas\<close> and \<open>generate_methods\<close> are such names.
\<close>

theorem C10_names_of_existing_attributes_are_skipped:
  assumes "Contract_init inherited lib3 env1 env2 address abi provider = Inr c'"
    and "n \<in> set (instance_attrs @ class_attrs @ inherited)"
  shows "c_attrs c' n = initial_attrs inherited n \<and> c_attrs c' n = Some Preexisting
       \<and> invoke lib node c' n args kw = None
       \<and> (\<forall>j<length (c_abi c'). is_function_named n (c_abi c' ! j) \<longrightarrow>
            (\<exists>c''. generate_methods
                      (c'\<lparr>c_abi := without j (c_abi c'), c_attrs := initial_attrs inherited\<rparr>) = Inr c''
                 \<and> c_attrs c'' = c_attrs c')
            \<and> (\<forall>c1. init_fields inherited lib3 env1 env2 address (AbiList (without j (c_abi c')))
                        provider = Inr c1
                 \<longrightarrow> (\<exists>c''. Contract_init inherited lib3 env1 env2 address
                               (AbiList (without j (c_abi c'))) provider = Inr c''
                        \<and> c_attrs c'' = c_attrs c')))
       \<and> set [''call'', ''send'', ''address'', ''abi'', ''provider'', ''estimate_gas'',
               ''generate_methods''] \<subseteq> set (instance_attrs @ class_attrs @ inherited)"
proof -
  obtain c0 where c0: "init_fields inherited lib3 env1 env2 address abi provider = Inr c0"
    "generate_methods c0 = Inr c'"
    using assms(1) Contract_init_split by blast
  note at0 = init_fields_attrs[OF c0(1)]
  have abi: "c_abi c0 = c_abi c'" using generate_methods_reset[OF c0(2)] by simp
  have at: "c_attrs c' n = Some Preexisting"
    using Contract_init_attrs[OF assms(1), of n] assms(2) by simp
  have del: "\<exists>c''. generate_methods c1 = Inr c'' \<and> c_attrs c'' = c_attrs c'"
    if "j < length (c_abi c')" "is_function_named n (c_abi c' ! j)"
      "c_abi c1 = without j (c_abi c')" "c_attrs c1 = initial_attrs inherited" for j c1
    using c0(2) at0
  proof (rule generate_methods_without)
    show "n \<in> set (instance_attrs @ class_attrs @ inherited) \<or> (\<exists>i<j. is_function_named n (c_abi c0 ! i))"
      using assms(2) by blast
  qed (use that abi in simp_all)
  have d1: "\<exists>c''. generate_methods
                      (c'\<lparr>c_abi := without j (c_abi c'), c_attrs := initial_attrs inherited\<rparr>) = Inr c''
                 \<and> c_attrs c'' = c_attrs c'"
    if "j < length (c_abi c')" "is_function_named n (c_abi c' ! j)" for j
    using that by (intro del[of j]) simp_all
  have d2: "\<exists>c''. Contract_init inherited lib3 env1 env2 address
                               (AbiList (without j (c_abi c'))) provider = Inr c''
                        \<and> c_attrs c'' = c_attrs c'"
    if h1: "j < length (c_abi c')" and h2: "is_function_named n (c_abi c' ! j)"
      and h3: "init_fields inherited lib3 env1 env2 address (AbiList (without j (c_abi c'))) provider = Inr c1"
    for j c1
  proof -
    obtain c'' where "generate_methods c1 = Inr c''" "c_attrs c'' = c_attrs c'"
      using del[OF h1 h2 init_fields_list[OF h3] init_fields_attrs[OF h3]] by blast
    then show ?thesis using h3 Contract_init_split by blast
  qed
  have ex: "set [''call'', ''send'', ''address'', ''abi'', ''provider'', ''estimate_gas'',
               ''generate_methods''] \<subseteq> set (instance_attrs @ class_attrs @ inherited)"
    by (simp add: instance_attrs_def class_attrs_def)
  have "c_attrs c' n = initial_attrs inherited n \<and> c_attrs c' n = Some Preexisting
       \<and> invoke lib node c' n args kw = None"
    using at assms(2) by (simp add: invoke_def initial_attrs_cases)
  then show ?thesis using d1 d2 ex by blast
qed

theorem C10_witness:
  "Contract_init [] lib3_demo net_up net_up ''0xC'' (AbiList with_call) (ProviderObject prov_one)
     = Inr (built with_call ((initial_attrs [])(''balanceOf'' \<mapsto> ViewMethod ''balanceOf'')))
   \<and> ''call'' \<in> set (instance_attrs @ class_attrs @ [])
   \<and> (0::nat) < length with_call \<and> is_function_named ''call'' (with_call ! 0)
   \<and> ((initial_attrs [])(''balanceOf'' \<mapsto> ViewMethod ''balanceOf'')) ''call'' = Some Preexisting
   \<and> invoke lib_demo node_demo
        (built with_call ((initial_attrs [])(''balanceOf'' \<mapsto> ViewMethod ''balanceOf'')))
        ''call'' [VStr ''balanceOf''] [] = None
   \<and> lookup_attr (generate_methods ((built with_call (initial_attrs []))\<lparr>c_abi := without 0 with_call\<rparr>))
        ''balanceOf'' = Inr (Some (ViewMethod ''balanceOf''))"
proof -
  let ?c = "built with_call ((initial_attrs [])(''balanceOf'' \<mapsto> ViewMethod ''balanceOf''))"
  have abi: "c_abi ?c = with_call"
    "c_attrs ?c = (initial_attrs [])(''balanceOf'' \<mapsto> ViewMethod ''balanceOf'')"
    by (simp_all add: built_def)
  have upd: "?c\<lparr>c_abi := without 0 with_call, c_attrs := initial_attrs []\<rparr>
               = (built with_call (initial_attrs []))\<lparr>c_abi := without 0 with_call\<rparr>"
    by (simp add: built_def)
  have h: "(0::nat) < length with_call" "is_function_named ''call'' (with_call ! 0)"
    by (simp_all add: with_call_def fn_entry_def is_function_named_def)
  note t = C10_names_of_existing_attributes_are_skipped[OF Contract_init_with_call preexisting(2),
      of lib_demo node_demo "[VStr ''balanceOf'']" "[]", unfolded abi]
  have a: "((initial_attrs [])(''balanceOf'' \<mapsto> ViewMethod ''balanceOf'')) ''call'' = Some Preexisting"
    "invoke lib_demo node_demo ?c ''call'' [VStr ''balanceOf''] [] = None"
    using t by blast+
  have "\<exists>c''. generate_methods (?c\<lparr>c_abi := without 0 with_call, c_attrs := initial_attrs []\<rparr>) = Inr c''
          \<and> c_attrs c'' = (initial_attrs [])(''balanceOf'' \<mapsto> ViewMethod ''balanceOf'')"
    using t h by blast
  then obtain c'' where c'': "generate_methods ((built with_call (initial_attrs []))\<lparr>c_abi := without 0 with_call\<rparr>) = Inr c''"
    "c_attrs c'' = (initial_attrs [])(''balanceOf'' \<mapsto> ViewMethod ''balanceOf'')"
    unfolding upd by blast
  have "lookup_attr (generate_methods ((built with_call (initial_attrs []))\<lparr>c_abi := without 0 with_call\<rparr>))
        ''balanceOf'' = Inr (Some (ViewMethod ''balanceOf''))"
    using c'' by (simp add: lookup_attr_def)
  then show ?thesis
    using Contract_init_with_call preexisting(2)[of "[]"] h a by blast
qed

end
